theory Spec2Isabelle
  imports Complex_Main "HOL-Library.AList" "HOL-Library.Char_ord" "HOL-Library.List_Lexorder" "HOL-Library.Multiset"
begin

section \<open>The usage tracker: data model\<close>

text \<open>
  The embedding follows \<^verbatim>\<open>src/usage-tracker.ts\<close>. A JavaScript \<^verbatim>\<open>number\<close> that counts
  tokens or milliseconds is an \<open>int\<close>; a \<^verbatim>\<open>number\<close> that holds money or a rate is a
  \<open>real\<close> (IEEE rounding is not modelled); \<^verbatim>\<open>number | null\<close> is an \<open>option\<close>. A string is a
  list of characters, compared position by position with the character codes, as SQLite's
  BINARY collation and JavaScript's \<^verbatim>\<open>===\<close> do. A \<^verbatim>\<open>Record<string, T>\<close> that is only read
  by key is a map; the pricing table, which is also enumerated, is an association list in the
  order of \<^verbatim>\<open>Object.entries\<close>. Keys are taken not to name a member of \<^verbatim>\<open>Object.prototype\<close>.
\<close>

record TokenUsageRecord =
  id_str :: string
  session_id :: string
  message_id :: string
  model :: string
  provider :: string
  input_tokens :: int
  output_tokens :: int
  cache_read_tokens :: int
  cache_write_tokens :: int
  cost :: "real option"
  created_at :: string
  machine_id :: string

record ModelPricing =
  pr_input :: real
  pr_output :: real
  pr_cacheRead :: real
  pr_cacheWrite :: real

datatype Trigger = Messages | Cost | Time | OtherTrigger

record ToastConfig =
  toast_enabled :: bool
  trigger :: Trigger
  messagesInterval :: real
  costThreshold :: real
  timeIntervalMinutes :: real

record PluginConfig =
  cfg_enabled :: bool
  dbPath :: string
  machineId :: "string option"
  toast :: ToastConfig
  pricing :: "(string \<times> ModelPricing) list"

record ModelStats =
  ms_input :: int
  ms_output :: int
  ms_cacheRead :: int
  ms_cacheWrite :: int
  ms_cost :: "real option"

record SessionStats =
  totalTokens :: int
  totalCost :: real
  messageCount :: int
  startTime :: int
  byModel :: "string \<rightharpoonup> ModelStats"

record AggModel =
  am_tokens :: int
  am_cost :: "real option"

text \<open>\<^verbatim>\<open>Omit<AggregateStats, 'sessions'>\<close> is the parent record; \<^verbatim>\<open>AggregateStats\<close> extends it.\<close>

record AggregateCore =
  ag_tokens :: int
  ag_cost :: real
  ag_messages :: nat
  ag_byModel :: "string \<rightharpoonup> AggModel"

record AggregateStats = AggregateCore +
  ag_sessions :: nat

record Tokens =
  tk_input :: int
  tk_output :: int
  tk_cacheRead :: int
  tk_cacheWrite :: int

section \<open>Default pricing\<close>

definition DEFAULT_PRICING :: "(string \<times> ModelPricing) list" where
  "DEFAULT_PRICING =
    [(''anthropic/claude-sonnet-4-5'',
        \<lparr>pr_input = 3, pr_output = 15, pr_cacheRead = 3 / 10, pr_cacheWrite = 15 / 4\<rparr>),
     (''anthropic/claude-opus-4-5'',
        \<lparr>pr_input = 5, pr_output = 25, pr_cacheRead = 1 / 2, pr_cacheWrite = 25 / 4\<rparr>),
     (''openai/gpt-5'',
        \<lparr>pr_input = 5 / 4, pr_output = 10, pr_cacheRead = 1 / 8, pr_cacheWrite = 0\<rparr>),
     (''openai/gpt-5.1'',
        \<lparr>pr_input = 5 / 4, pr_output = 10, pr_cacheRead = 1 / 8, pr_cacheWrite = 0\<rparr>),
     (''openai/gpt-5.2'',
        \<lparr>pr_input = 7 / 4, pr_output = 14, pr_cacheRead = 7 / 40, pr_cacheWrite = 0\<rparr>),
     (''openai/gpt-5-mini'',
        \<lparr>pr_input = 1 / 4, pr_output = 2, pr_cacheRead = 1 / 40, pr_cacheWrite = 0\<rparr>)]"

section \<open>Database layer\<close>

text \<open>
  The table \<^verbatim>\<open>token_usage\<close> is the list of its rows in rowid order. \<^verbatim>\<open>INSERT OR IGNORE\<close>
  skips a row that would break a uniqueness constraint: the primary key \<^verbatim>\<open>id\<close> or the
  \<^verbatim>\<open>UNIQUE\<close> column \<^verbatim>\<open>message_id\<close>.
\<close>

type_synonym table = "TokenUsageRecord list"

definition insert_or_ignore :: "TokenUsageRecord \<Rightarrow> table \<Rightarrow> table" where
  "insert_or_ignore r rows =
     (if list_ex (\<lambda>x. id_str x = id_str r \<or> message_id x = message_id r) rows
      then rows else rows @ [r])"

text \<open>
  \<^verbatim>\<open>UsageDatabase.insert\<close>: the flag \<open>ok\<close> is false when \<^verbatim>\<open>prepare\<close> or \<^verbatim>\<open>run\<close>
  throws (the \<^verbatim>\<open>catch\<close> branch); the result is the returned boolean and the table.
\<close>

definition insert_rec :: "bool \<Rightarrow> TokenUsageRecord \<Rightarrow> table \<Rightarrow> bool \<times> table" where
  "insert_rec ok r rows =
     (if ok then (True, insert_or_ignore r rows) else (False, rows))"

definition hasMessage :: "string \<Rightarrow> table \<Rightarrow> bool" where
  "hasMessage messageId rows = list_ex (\<lambda>x. message_id x = messageId) rows"

definition getSessionStats :: "string \<Rightarrow> table \<Rightarrow> TokenUsageRecord list" where
  "getSessionStats sessionId rows =
     sort_key created_at (filter (\<lambda>x. session_id x = sessionId) rows)"

subsection \<open>SQLite's LIKE\<close>

text \<open>
  SQLite's \<^verbatim>\<open>LIKE\<close> without \<^verbatim>\<open>ESCAPE\<close>: \<^verbatim>\<open>%\<close> matches any run of characters, \<^verbatim>\<open>_\<close> any one
  character, and every other character matches itself, the ASCII letters without regard to
  case: two characters match when their codes agree after the upper-case ASCII letters are
  moved to lower case.
\<close>

definition ascii_lower :: "char \<Rightarrow> nat" where
  "ascii_lower c =
     (if CHR ''A'' \<le> c \<and> c \<le> CHR ''Z'' then of_char c + 32 else of_char c)"

fun like_match :: "string \<Rightarrow> string \<Rightarrow> bool" where
  "like_match [] s = (s = [])"
| "like_match (p # ps) [] = (p = CHR ''%'' \<and> like_match ps [])"
| "like_match (p # ps) (c # cs) =
     (if p = CHR ''%'' then like_match ps (c # cs) \<or> like_match (p # ps) cs
      else if p = CHR ''_'' then like_match ps cs
      else ascii_lower p = ascii_lower c \<and> like_match ps cs)"

text \<open>
  The \<^verbatim>\<open>WHERE\<close> clause of \<^verbatim>\<open>getAggregateStats\<close>. The \<^verbatim>\<open>LIKE\<close> condition is added when
  \<^verbatim>\<open>modelFilter\<close> is truthy: given and not the empty string.
\<close>

definition range_where :: "string \<Rightarrow> string \<Rightarrow> string \<Rightarrow> string option \<Rightarrow> TokenUsageRecord \<Rightarrow> bool"
  where
  "range_where machine startDate endDate modelFilter x =
     (machine_id x = machine \<and> startDate \<le> created_at x \<and> created_at x < endDate \<and>
      (case modelFilter of
         None \<Rightarrow> True
       | Some f \<Rightarrow> if f \<noteq> [] then like_match (''%'' @ f @ ''%'') (model x) else True))"

definition getAggregateStats ::
  "string \<Rightarrow> string \<Rightarrow> string \<Rightarrow> string option \<Rightarrow> table \<Rightarrow> TokenUsageRecord list \<times> nat" where
  "getAggregateStats machine startDate endDate modelFilter rows =
     (let records = sort_key created_at
                      (filter (range_where machine startDate endDate modelFilter) rows);
          sessionIds = remdups (map session_id records)
      in (records, length sessionIds))"

section \<open>Utility functions\<close>

definition record_tokens :: "TokenUsageRecord \<Rightarrow> int" where
  "record_tokens r =
     input_tokens r + output_tokens r + cache_read_tokens r + cache_write_tokens r"

definition known_cost :: "real option \<Rightarrow> real" where
  "known_cost c = (case c of None \<Rightarrow> 0 | Some v \<Rightarrow> v)"

record agg_loop =
  lp_byModel :: "string \<rightharpoonup> AggModel"
  lp_totalTokens :: int
  lp_totalCost :: real
  lp_hasAnyCost :: bool

text \<open>One iteration of the loop of \<^verbatim>\<open>calculateAggregates\<close>.\<close>

definition agg_step :: "agg_loop \<Rightarrow> TokenUsageRecord \<Rightarrow> agg_loop" where
  "agg_step a r =
     (let tokens = record_tokens r;
          totalTokens = lp_totalTokens a + tokens;
          totalCost = (case cost r of None \<Rightarrow> lp_totalCost a | Some c \<Rightarrow> lp_totalCost a + c);
          hasAnyCost = (case cost r of None \<Rightarrow> lp_hasAnyCost a | Some c \<Rightarrow> True);
          entry = (case lp_byModel a (model r) of
                     None \<Rightarrow> \<lparr>am_tokens = 0, am_cost = None\<rparr> | Some e \<Rightarrow> e);
          entry1 = entry\<lparr>am_tokens := am_tokens entry + tokens\<rparr>;
          entry2 = (case cost r of None \<Rightarrow> entry1
                    | Some c \<Rightarrow> entry1\<lparr>am_cost := Some (known_cost (am_cost entry1) + c)\<rparr>)
      in \<lparr>lp_byModel = (lp_byModel a)(model r \<mapsto> entry2), lp_totalTokens = totalTokens,
          lp_totalCost = totalCost, lp_hasAnyCost = hasAnyCost\<rparr>)"

definition agg_init :: agg_loop where
  "agg_init = \<lparr>lp_byModel = Map.empty, lp_totalTokens = 0, lp_totalCost = 0,
               lp_hasAnyCost = False\<rparr>"

definition calculateAggregates :: "TokenUsageRecord list \<Rightarrow> AggregateCore" where
  "calculateAggregates records =
     (let a = foldl agg_step agg_init records
      in \<lparr>ag_tokens = lp_totalTokens a,
          ag_cost = (if lp_hasAnyCost a then lp_totalCost a else 0),
          ag_messages = length records,
          ag_byModel = lp_byModel a\<rparr>)"

section \<open>Configuration\<close>









definition nullish :: "'a option \<Rightarrow> 'a \<Rightarrow> 'a" where
  "nullish v d = (case v of None \<Rightarrow> d | Some x \<Rightarrow> x)"


section \<open>Pricing and cost\<close>

text \<open>
  \<^verbatim>\<open>String.prototype.split\<close> with a one-character separator: the result is never empty, and
  the empty string splits into one empty piece.
\<close>

fun split_on :: "char \<Rightarrow> string \<Rightarrow> string list" where
  "split_on sep [] = [[]]"
| "split_on sep (c # cs) =
     (if c = sep then [] # split_on sep cs
      else (c # hd (split_on sep cs)) # tl (split_on sep cs))"

text \<open>\<^verbatim>\<open>Array.prototype.pop\<close> and an index read give \<^verbatim>\<open>undefined\<close> (here \<open>None\<close>) on no element.\<close>

definition pop :: "'a list \<Rightarrow> 'a option" where
  "pop xs = (case xs of [] \<Rightarrow> None | _ \<Rightarrow> Some (last xs))"

definition at0 :: "'a list \<Rightarrow> 'a option" where
  "at0 xs = (case xs of [] \<Rightarrow> None | x # _ \<Rightarrow> Some x)"

definition endsWith :: "string \<Rightarrow> string \<Rightarrow> bool" where
  "endsWith s t = (length t \<le> length s \<and> drop (length s - length t) s = t)"

text \<open>
  The template literal \<^verbatim>\<open>`/${modelName}`\<close>: an \<^verbatim>\<open>undefined\<close> would print as the word
  \<^verbatim>\<open>undefined\<close>.
\<close>

definition template_str :: "string option \<Rightarrow> string" where
  "template_str s = (case s of None \<Rightarrow> ''undefined'' | Some x \<Rightarrow> x)"

definition key_matches :: "string option \<Rightarrow> string \<Rightarrow> bool" where
  "key_matches modelName key =
     (endsWith key (CHR ''/'' # template_str modelName) \<or> Some key = modelName)"

definition getPricing :: "string \<Rightarrow> PluginConfig \<Rightarrow> ModelPricing option" where
  "getPricing mdl config =
     (case map_of (pricing config) mdl of
        Some p \<Rightarrow> Some p
      | None \<Rightarrow>
          (let modelName = pop (split_on CHR ''/'' mdl)
           in map_option snd (find (\<lambda>(key, p). key_matches modelName key) (pricing config))))"

definition calculateCost :: "Tokens \<Rightarrow> ModelPricing option \<Rightarrow> real option \<Rightarrow> real option" where
  "calculateCost tokens pricing_opt opencodeCost =
     (case pricing_opt of
        Some p \<Rightarrow>
          Some (real_of_int (tk_input tokens) * pr_input p / 1000000 +
                real_of_int (tk_output tokens) * pr_output p / 1000000 +
                real_of_int (tk_cacheRead tokens) * pr_cacheRead p / 1000000 +
                real_of_int (tk_cacheWrite tokens) * pr_cacheWrite p / 1000000)
      | None \<Rightarrow>
          (case opencodeCost of
             Some c \<Rightarrow> if c > 0 then Some c else None
           | None \<Rightarrow> None))"

section \<open>Session statistics\<close>

definition empty_stats :: "int \<Rightarrow> SessionStats" where
  "empty_stats now =
     \<lparr>totalTokens = 0, totalCost = 0, messageCount = 0, startTime = now, byModel = Map.empty\<rparr>"

definition empty_model_stats :: ModelStats where
  "empty_model_stats =
     \<lparr>ms_input = 0, ms_output = 0, ms_cacheRead = 0, ms_cacheWrite = 0, ms_cost = None\<rparr>"

text \<open>
  The per-model part shared by both loops: create the entry if there is none, add the four
  counts, and add the cost when it is known.
\<close>

definition model_add :: "(string \<rightharpoonup> ModelStats) \<Rightarrow> string \<Rightarrow> Tokens \<Rightarrow> real option \<Rightarrow> (string \<rightharpoonup> ModelStats)"
  where
  "model_add bm mdl tokens c =
     (let e = (case bm mdl of None \<Rightarrow> empty_model_stats | Some e0 \<Rightarrow> e0);
          e1 = e\<lparr>ms_input := ms_input e + tk_input tokens,
                 ms_output := ms_output e + tk_output tokens,
                 ms_cacheRead := ms_cacheRead e + tk_cacheRead tokens,
                 ms_cacheWrite := ms_cacheWrite e + tk_cacheWrite tokens\<rparr>;
          e2 = (case c of None \<Rightarrow> e1 | Some v \<Rightarrow> e1\<lparr>ms_cost := Some (known_cost (ms_cost e1) + v)\<rparr>)
      in bm(mdl \<mapsto> e2))"

definition record_token_fields :: "TokenUsageRecord \<Rightarrow> Tokens" where
  "record_token_fields r =
     \<lparr>tk_input = input_tokens r, tk_output = output_tokens r,
      tk_cacheRead = cache_read_tokens r, tk_cacheWrite = cache_write_tokens r\<rparr>"

text \<open>One iteration of the loop of \<^verbatim>\<open>buildSessionStats\<close>.\<close>

definition build_step :: "SessionStats \<Rightarrow> TokenUsageRecord \<Rightarrow> SessionStats" where
  "build_step stats r =
     (let tokens = record_tokens r;
          stats1 = stats\<lparr>totalTokens := totalTokens stats + tokens\<rparr>;
          stats2 = (case cost r of None \<Rightarrow> stats1
                    | Some c \<Rightarrow> stats1\<lparr>totalCost := totalCost stats1 + c\<rparr>)
      in stats2\<lparr>byModel := model_add (byModel stats2) (model r) (record_token_fields r) (cost r)\<rparr>)"

text \<open>
  \<^verbatim>\<open>buildSessionStats\<close>; \<open>parse_time\<close> stands for \<^verbatim>\<open>new Date(s).getTime()\<close> and \<open>now\<close> for
  \<^verbatim>\<open>Date.now()\<close>.
\<close>

definition buildSessionStats :: "(string \<Rightarrow> int) \<Rightarrow> int \<Rightarrow> TokenUsageRecord list \<Rightarrow> SessionStats"
  where
  "buildSessionStats parse_time now records =
     foldl build_step
       \<lparr>totalTokens = 0, totalCost = 0, messageCount = int (length records),
        startTime = (case records of [] \<Rightarrow> now | r # _ \<Rightarrow> parse_time (created_at r)),
        byModel = Map.empty\<rparr>
       records"

section \<open>The plugin\<close>

datatype MsgModel = ModelString string | ModelObject "string option" string | ModelAbsent

record RawTokens =
  rt_input :: "int option"
  rt_output :: "int option"
  rt_cache :: "(int option \<times> int option) option"

record Message =
  role :: string
  time_completed :: "int option"
  msg_tokens :: "RawTokens option"
  msg_cost :: "real option"
  sessionID :: string
  msg_id :: string
  msg_model :: MsgModel

datatype Event = MessageUpdated Message | OtherEvent

text \<open>
  What the surroundings give one run of the event handler: the UUID of \<^verbatim>\<open>generateId\<close>, the
  time stamp of \<^verbatim>\<open>new Date().toISOString()\<close>, the host name, whether the storage takes the
  write, and the readings of \<^verbatim>\<open>Date.now()\<close> in \<^verbatim>\<open>getOrCreateSessionStats\<close>,
  \<^verbatim>\<open>shouldShowToast\<close> and \<^verbatim>\<open>resetToastTracking\<close>.
\<close>

record Env =
  gen_id :: string
  iso_now :: string
  host :: string
  storage_ok :: bool
  now_create :: int
  now_check :: int
  now_reset :: int

text \<open>
  A toast shown to the user: the error of a failed write, or the usage line, kept as the
  three values it prints (the tokens of the message, its cost, the total cost of the session).
\<close>

datatype ToastMsg = ErrorToast string | InfoToast int "real option" real

record PluginState =
  db :: table
  sessionStats :: "string \<rightharpoonup> SessionStats"
  processedMessages :: "string set"
  lastToastTime :: int
  messagesSinceToast :: int
  costSinceToast :: real
  shown :: "ToastMsg list"

definition init_state :: "table \<Rightarrow> int \<Rightarrow> PluginState" where
  "init_state rows now =
     \<lparr>db = rows, sessionStats = Map.empty, processedMessages = {}, lastToastTime = now,
      messagesSinceToast = 0, costSinceToast = 0, shown = []\<rparr>"

definition getOrCreateSessionStats ::
  "int \<Rightarrow> string \<Rightarrow> (string \<rightharpoonup> SessionStats) \<Rightarrow> SessionStats \<times> (string \<rightharpoonup> SessionStats)" where
  "getOrCreateSessionStats now sid m =
     (case m sid of
        None \<Rightarrow> (empty_stats now, m(sid \<mapsto> empty_stats now))
      | Some s \<Rightarrow> (s, m))"

definition shouldShowToast :: "PluginConfig \<Rightarrow> int \<Rightarrow> PluginState \<Rightarrow> bool" where
  "shouldShowToast config now st =
     (if \<not> toast_enabled (toast config) then False
      else case trigger (toast config) of
             Messages \<Rightarrow> real_of_int (messagesSinceToast st) \<ge> messagesInterval (toast config)
           | Cost \<Rightarrow> costSinceToast st \<ge> costThreshold (toast config)
           | Time \<Rightarrow> real_of_int (now - lastToastTime st)
                       \<ge> timeIntervalMinutes (toast config) * 60 * 1000
           | OtherTrigger \<Rightarrow> False)"

definition resetToastTracking :: "int \<Rightarrow> PluginState \<Rightarrow> PluginState" where
  "resetToastTracking now st =
     st\<lparr>lastToastTime := now, messagesSinceToast := 0, costSinceToast := 0\<rparr>"

definition truthy_num :: "int option \<Rightarrow> bool" where
  "truthy_num t = (case t of None \<Rightarrow> False | Some n \<Rightarrow> n \<noteq> 0)"

definition read_tokens :: "RawTokens \<Rightarrow> Tokens" where
  "read_tokens t =
     \<lparr>tk_input = nullish (rt_input t) 0,
      tk_output = nullish (rt_output t) 0,
      tk_cacheRead = nullish (Option.bind (rt_cache t) fst) 0,
      tk_cacheWrite = nullish (Option.bind (rt_cache t) snd) 0\<rparr>"

definition extract_model :: "MsgModel \<Rightarrow> string" where
  "extract_model m =
     (case m of
        ModelString s \<Rightarrow> s
      | ModelObject pid modelID \<Rightarrow>
          (let providerID = nullish pid [] in
           if providerID \<noteq> [] then providerID @ ''/'' @ modelID else modelID)
      | ModelAbsent \<Rightarrow> ''unknown'')"

text \<open>\<^verbatim>\<open>model.split("/")[0] ?? "unknown"\<close>\<close>

definition derive_provider :: "string \<Rightarrow> string" where
  "derive_provider mdl = nullish (at0 (split_on CHR ''/'' mdl)) ''unknown''"

definition make_record :: "PluginConfig \<Rightarrow> Env \<Rightarrow> Message \<Rightarrow> TokenUsageRecord" where
  "make_record config env message =
     (let tokens = read_tokens (the (msg_tokens message));
          mdl = extract_model (msg_model message)
      in \<lparr>id_str = gen_id env,
          session_id = sessionID message,
          message_id = msg_id message,
          model = mdl,
          provider = derive_provider mdl,
          input_tokens = tk_input tokens,
          output_tokens = tk_output tokens,
          cache_read_tokens = tk_cacheRead tokens,
          cache_write_tokens = tk_cacheWrite tokens,
          cost = calculateCost tokens (getPricing mdl config) (msg_cost message),
          created_at = iso_now env,
          machine_id = nullish (machineId config) (host env)\<rparr>)"

text \<open>The update of the session's statistics in the event handler, after a successful insert.\<close>

definition add_usage :: "SessionStats \<Rightarrow> Tokens \<Rightarrow> string \<Rightarrow> real option \<Rightarrow> SessionStats" where
  "add_usage stats tokens mdl c =
     (let totalMsgTokens = tk_input tokens + tk_output tokens + tk_cacheRead tokens
                           + tk_cacheWrite tokens;
          stats1 = stats\<lparr>totalTokens := totalTokens stats + totalMsgTokens\<rparr>;
          stats2 = (case c of None \<Rightarrow> stats1 | Some v \<Rightarrow> stats1\<lparr>totalCost := totalCost stats1 + v\<rparr>);
          stats3 = stats2\<lparr>messageCount := messageCount stats2 + 1\<rparr>
      in stats3\<lparr>byModel := model_add (byModel stats3) mdl tokens c\<rparr>)"

text \<open>The end of the handler: the toast counters, and the toast when it is due.\<close>

definition toast_phase :: "PluginConfig \<Rightarrow> Env \<Rightarrow> int \<Rightarrow> real option \<Rightarrow> real \<Rightarrow> PluginState \<Rightarrow> PluginState"
  where
  "toast_phase config env totalMsgTokens c sessionCost st =
     (let st1 = st\<lparr>messagesSinceToast := messagesSinceToast st + 1\<rparr>;
          st2 = (case c of None \<Rightarrow> st1 | Some v \<Rightarrow> st1\<lparr>costSinceToast := costSinceToast st1 + v\<rparr>)
      in if shouldShowToast config (now_check env) st2
         then resetToastTracking (now_reset env)
                (st2\<lparr>shown := shown st2 @ [InfoToast totalMsgTokens c sessionCost]\<rparr>)
         else st2)"

definition save_failed :: ToastMsg where
  "save_failed = ErrorToast ''Usage tracker: Failed to save token usage''"

definition event :: "PluginConfig \<Rightarrow> Env \<Rightarrow> Event \<Rightarrow> PluginState \<Rightarrow> PluginState" where
  "event config env ev st =
     (case ev of
        OtherEvent \<Rightarrow> st
      | MessageUpdated message \<Rightarrow>
          if role message \<noteq> ''assistant'' \<or> \<not> truthy_num (time_completed message) \<or>
             msg_tokens message = None \<or> msg_id message \<in> processedMessages st
          then st
          else if hasMessage (msg_id message) (db st)
          then st\<lparr>processedMessages := insert (msg_id message) (processedMessages st)\<rparr>
          else
            (let rec = make_record config env message;
                 tokens = read_tokens (the (msg_tokens message));
                 (success, rows) = insert_rec (storage_ok env) rec (db st)
             in if \<not> success
                then st\<lparr>db := rows, shown := shown st @ [save_failed]\<rparr>
                else
                  (let st1 = st\<lparr>db := rows,
                                 processedMessages := insert (msg_id message) (processedMessages st)\<rparr>;
                       (stats, cache) = getOrCreateSessionStats (now_create env) (sessionID message)
                                          (sessionStats st1);
                       stats' = add_usage stats tokens (model rec) (cost rec);
                       st2 = st1\<lparr>sessionStats := cache(sessionID message \<mapsto> stats')\<rparr>;
                       totalMsgTokens = tk_input tokens + tk_output tokens + tk_cacheRead tokens
                                        + tk_cacheWrite tokens
                   in toast_phase config env totalMsgTokens (cost rec) (totalCost stats') st2)))"


subsection \<open>The query tools\<close>

text \<open>
  The tools return a formatted text; the model keeps what is formatted. \<open>sessions\<close> is the
  answer of \<^verbatim>\<open>client.session.list()\<close>: the session ids, or \<open>None\<close> when the call throws.
\<close>

definition getCurrentSessionId :: "string list option \<Rightarrow> string option" where
  "getCurrentSessionId sessions =
     (case sessions of None \<Rightarrow> None | Some [] \<Rightarrow> None | Some (s # _) \<Rightarrow> Some s)"

datatype UsageResult = NoActiveSession | NoUsageData | UsageReport bool SessionStats

definition usage_execute ::
  "(string \<Rightarrow> int) \<Rightarrow> int \<Rightarrow> bool \<Rightarrow> string list option \<Rightarrow> PluginState \<Rightarrow> UsageResult \<times> PluginState"
  where
  "usage_execute parse_time now full sessions st =
     (case getCurrentSessionId sessions of
        None \<Rightarrow> (NoActiveSession, st)
      | Some sessionId \<Rightarrow>
          (let cached = sessionStats st sessionId;
               cold = (case cached of None \<Rightarrow> True | Some s \<Rightarrow> messageCount s = 0)
           in if cold
              then (let records = getSessionStats sessionId (db st)
                    in if records = [] then (NoUsageData, st)
                       else (UsageReport full (buildSessionStats parse_time now records), st))
              else (UsageReport full (the cached), st)))"

record GlobalArgs =
  ga_full :: bool
  ga_year :: bool
  ga_all :: bool
  ga_model :: "string option"

text \<open>The starts of the periods, which the source computes from the local clock.\<close>

record Periods =
  startOfDay :: string
  startOfWeek :: string
  startOfMonth :: string
  startOfYear :: string

datatype GlobalResult =
  GlobalReport bool AggregateStats AggregateStats AggregateStats
    "AggregateStats option" "AggregateStats option"

definition period_stats :: "string \<Rightarrow> string \<Rightarrow> string option \<Rightarrow> table \<Rightarrow> AggregateStats" where
  "period_stats machine start modelFilter rows =
     (let farFuture = ''2100-01-01T00:00:00.000Z'';
          dat = getAggregateStats machine start farFuture modelFilter rows;
          agg = calculateAggregates (fst dat)
      in AggregateCore.extend agg (AggregateStats.fields (snd dat)))"

definition globalusage_execute ::
  "PluginConfig \<Rightarrow> string \<Rightarrow> Periods \<Rightarrow> GlobalArgs \<Rightarrow> PluginState \<Rightarrow> GlobalResult \<times> PluginState"
  where
  "globalusage_execute config hostname periods args st =
     (let machine = nullish (machineId config) hostname;
          today = period_stats machine (startOfDay periods) (ga_model args) (db st);
          week = period_stats machine (startOfWeek periods) (ga_model args) (db st);
          month = period_stats machine (startOfMonth periods) (ga_model args) (db st);
          year = (if ga_year args \<or> ga_all args
                  then Some (period_stats machine (startOfYear periods) (ga_model args) (db st))
                  else None);
          allTime = (if ga_all args
                     then Some (period_stats machine ''1970-01-01T00:00:00.000Z'' (ga_model args)
                                  (db st))
                     else None)
      in (GlobalReport (ga_full args) today week month year allTime, st))"

section \<open>Notions used in the statements and proofs\<close>

subsection \<open>The store and the event handler\<close>

text \<open>A run of inserts, each with its own storage outcome.\<close>

definition insert_many :: "(bool \<times> TokenUsageRecord) list \<Rightarrow> table \<Rightarrow> table" where
  "insert_many ops rows = foldl (\<lambda>s x. snd (insert_rec (fst x) (snd x) s)) rows ops"

text \<open>
  The guards of the event handler: a completed assistant message with token data that was
  neither processed in this run nor stored before.
\<close>

definition accepted :: "Message \<Rightarrow> PluginState \<Rightarrow> bool" where
  "accepted message st =
     (role message = ''assistant'' \<and> truthy_num (time_completed message) \<and>
      msg_tokens message \<noteq> None \<and> msg_id message \<notin> processedMessages st \<and>
      \<not> hasMessage (msg_id message) (db st))"

text \<open>What the handler does with an accepted message once the insert has reported success.\<close>

definition ingested :: "PluginConfig \<Rightarrow> Env \<Rightarrow> Message \<Rightarrow> PluginState \<Rightarrow> PluginState" where
  "ingested config env message st =
     (let rec = make_record config env message;
          tokens = read_tokens (the (msg_tokens message));
          old = (case sessionStats st (sessionID message) of
                   None \<Rightarrow> empty_stats (now_create env) | Some s \<Rightarrow> s);
          stats' = add_usage old tokens (model rec) (cost rec)
      in toast_phase config env
           (tk_input tokens + tk_output tokens + tk_cacheRead tokens + tk_cacheWrite tokens)
           (cost rec) (totalCost stats')
           (st\<lparr>db := insert_or_ignore rec (db st),
               processedMessages := insert (msg_id message) (processedMessages st),
               sessionStats := (sessionStats st)(sessionID message \<mapsto> stats')\<rparr>))"

subsection \<open>Totals\<close>











subsection \<open>The range query in the words of the specification\<close>

text \<open>A case-sensitive substring test, and the query as the specification words it.\<close>

fun is_substring :: "string \<Rightarrow> string \<Rightarrow> bool" where
  "is_substring f [] = (f = [])"
| "is_substring f (c # cs) = (take (length f) (c # cs) = f \<or> is_substring f cs)"

definition spec_queryByRange ::
  "string \<Rightarrow> string \<Rightarrow> string \<Rightarrow> string option \<Rightarrow> table \<Rightarrow> TokenUsageRecord list \<times> nat" where
  "spec_queryByRange machine startInclusive endExclusive modelSubstring rows =
     (let records = sort_key created_at
            (filter (\<lambda>x. machine_id x = machine \<and> startInclusive \<le> created_at x \<and>
                         created_at x < endExclusive \<and>
                         (case modelSubstring of None \<Rightarrow> True
                          | Some f \<Rightarrow> is_substring f (model x))) rows)
      in (records, card (session_id ` set records)))"

subsection \<open>Pricing resolution in the words of the specification\<close>



subsection \<open>Example values\<close>

definition example_record :: "string \<Rightarrow> string \<Rightarrow> string \<Rightarrow> int \<Rightarrow> int \<Rightarrow> real option \<Rightarrow> string \<Rightarrow> TokenUsageRecord"
  where
  "example_record i sid mid tin tout c ts =
     \<lparr>id_str = i, session_id = sid, message_id = mid, model = ''anthropic/claude-sonnet-4-5'',
      provider = ''anthropic'', input_tokens = tin, output_tokens = tout,
      cache_read_tokens = 0, cache_write_tokens = 0, cost = c, created_at = ts,
      machine_id = ''laptop''\<rparr>"

definition example_message :: "string \<Rightarrow> string \<Rightarrow> MsgModel \<Rightarrow> Message" where
  "example_message sid mid m =
     \<lparr>role = ''assistant'', time_completed = Some 1736121600000,
      msg_tokens = Some \<lparr>rt_input = Some 1000, rt_output = Some 500, rt_cache = None\<rparr>,
      msg_cost = None, sessionID = sid, msg_id = mid, msg_model = m\<rparr>"

definition example_env :: "string \<Rightarrow> bool \<Rightarrow> Env" where
  "example_env u ok =
     \<lparr>gen_id = u, iso_now = ''2025-01-06T00:00:00.000Z'', host = ''laptop'', storage_ok = ok,
      now_create = 1736121600000, now_check = 1736121600001, now_reset = 1736121600002\<rparr>"

definition example_config :: "bool \<Rightarrow> Trigger \<Rightarrow> PluginConfig" where
  "example_config en tr =
     \<lparr>cfg_enabled = True, dbPath = ''/tmp/token-usage.db'', machineId = Some ''laptop'',
      toast = \<lparr>toast_enabled = en, trigger = tr, messagesInterval = 1, costThreshold = 1 / 10,
               timeIntervalMinutes = 10\<rparr>,
      pricing = DEFAULT_PRICING\<rparr>"

section \<open>Properties\<close>

subsection \<open>The cost calculator\<close>

text \<open>
  C2. The cost calculator follows a strict precedence. With a rate card the result is the
  known value that sums, over the four token categories, count times rate divided by one
  million, whatever the fallback cost is and also when the sum is zero. With no rate card a
  strictly positive fallback cost is returned as it is; a fallback that is absent or not
  strictly positive gives the unknown cost.
\<close>

theorem calculateCost_precedence:
  "calculateCost t (Some p) fb =
      Some (\<Sum>(n, rate) \<leftarrow> [(tk_input t, pr_input p), (tk_output t, pr_output p),
                             (tk_cacheRead t, pr_cacheRead p), (tk_cacheWrite t, pr_cacheWrite p)].
              real_of_int n * rate / 1000000)
   \<and> (\<forall>c. c > 0 \<longrightarrow> calculateCost t None (Some c) = Some c)
   \<and> (\<forall>c. \<not> c > 0 \<longrightarrow> calculateCost t None (Some c) = None)
   \<and> calculateCost t None None = None"
  by (simp add: calculateCost_def)

theorem calculateCost_precedence_witness:
  "calculateCost \<lparr>tk_input = 1000, tk_output = 500, tk_cacheRead = 0, tk_cacheWrite = 0\<rparr>
     (Some \<lparr>pr_input = 3, pr_output = 15, pr_cacheRead = 3 / 10, pr_cacheWrite = 15 / 4\<rparr>)
     (Some (5 / 2)) = Some (21 / 2000)
   \<and> calculateCost \<lparr>tk_input = 1000, tk_output = 500, tk_cacheRead = 0, tk_cacheWrite = 0\<rparr>
       None (Some (5 / 2)) = Some (5 / 2)
   \<and> calculateCost \<lparr>tk_input = 1000, tk_output = 500, tk_cacheRead = 0, tk_cacheWrite = 0\<rparr>
       None (Some 0) = None
   \<and> calculateCost \<lparr>tk_input = 1000, tk_output = 500, tk_cacheRead = 0, tk_cacheWrite = 0\<rparr>
       None None = None"
  using calculateCost_precedence
    [of "\<lparr>tk_input = 1000, tk_output = 500, tk_cacheRead = 0, tk_cacheWrite = 0\<rparr>"
        "\<lparr>pr_input = 3, pr_output = 15, pr_cacheRead = 3 / 10, pr_cacheWrite = 15 / 4\<rparr>"
        "Some (5 / 2)"]
  by simp

subsection \<open>Pricing resolution\<close>

























subsection \<open>Aggregation\<close>











subsection \<open>Idempotent insert\<close>

lemma insert_keeps_single:
  assumes "filter (\<lambda>x. message_id x = m) rows = [r1]"
  shows "filter (\<lambda>x. message_id x = m) (snd (insert_rec ok r rows)) = [r1]"
proof (cases "message_id r = m")
  case True
  have "r1 \<in> set (filter (\<lambda>x. message_id x = m) rows)" using assms by simp
  then have "\<exists>x\<in>set rows. message_id x = message_id r" using True by auto
  then show ?thesis using assms
    by (auto simp add: insert_rec_def insert_or_ignore_def list_ex_iff)
next
  case False
  then show ?thesis using assms
    by (simp add: insert_rec_def insert_or_ignore_def)
qed

lemma insert_many_keeps_single:
  "filter (\<lambda>x. message_id x = m) rows = [r1] \<Longrightarrow>
   filter (\<lambda>x. message_id x = m) (insert_many ops rows) = [r1]"
  unfolding insert_many_def
  by (induction ops arbitrary: rows) (simp_all add: insert_keeps_single)

lemma insert_distinct:
  "distinct (map message_id rows) \<Longrightarrow> distinct (map message_id (snd (insert_rec ok r rows)))"
proof (cases "list_ex (\<lambda>x. id_str x = id_str r \<or> message_id x = message_id r) rows")
  case True
  assume "distinct (map message_id rows)"
  with True show ?thesis by (simp add: insert_rec_def insert_or_ignore_def)
next
  case False
  assume "distinct (map message_id rows)"
  with False show ?thesis by (auto simp add: insert_rec_def insert_or_ignore_def list_ex_iff)
qed

lemma insert_many_distinct:
  "distinct (map message_id rows) \<Longrightarrow> distinct (map message_id (insert_many ops rows))"
  unfolding insert_many_def
  by (induction ops arbitrary: rows) (simp_all add: insert_distinct)

lemma insert_fresh:
  assumes "\<not> hasMessage (message_id r) rows" "id_str r \<notin> set (map id_str rows)"
  shows "insert_rec True r rows = (True, rows @ [r])"
  using assms by (auto simp add: insert_rec_def insert_or_ignore_def hasMessage_def list_ex_iff image_iff)

lemma filter_absent:
  "\<not> hasMessage m rows \<Longrightarrow> filter (\<lambda>x. message_id x = m) rows = []"
  by (auto simp add: hasMessage_def list_ex_iff filter_empty_conv)

lemma insert_present_noop:
  assumes "filter (\<lambda>x. message_id x = message_id r) rows = [r1]"
  shows "snd (insert_rec ok r rows) = rows"
proof -
  have "r1 \<in> set (filter (\<lambda>x. message_id x = message_id r) rows)" using assms by simp
  then have "\<exists>x\<in>set rows. message_id x = message_id r" by auto
  then show ?thesis by (auto simp add: insert_rec_def insert_or_ignore_def list_ex_iff)
qed

text \<open>
  C1. Insert is idempotent on the message id. Take a store that holds no row with the message
  id of \<open>r1\<close> and none with its generated id, and a second record \<open>r2\<close> with the same
  message id and any other fields. After \<open>r1\<close> is inserted, any inserts run in between,
  \<open>r2\<close> is inserted and any inserts run later, both inserts have reported success, the
  insert of \<open>r2\<close> has left the table as it was, and the table holds exactly one row with
  that message id, which is \<open>r1\<close>. Distinct message ids stay distinct.
\<close>

theorem insert_idempotent:
  assumes same: "message_id r2 = message_id r1"
    and new: "\<not> hasMessage (message_id r1) rows"
    and fresh: "id_str r1 \<notin> set (map id_str rows)"
  shows "fst (insert_rec True r1 rows)
    \<and> fst (insert_rec True r2 (insert_many between (snd (insert_rec True r1 rows))))
    \<and> snd (insert_rec ok r2 (insert_many between (snd (insert_rec True r1 rows))))
        = insert_many between (snd (insert_rec True r1 rows))
    \<and> filter (\<lambda>x. message_id x = message_id r1)
        (insert_many later
           (snd (insert_rec ok r2 (insert_many between (snd (insert_rec True r1 rows)))))) = [r1]
    \<and> (distinct (map message_id rows) \<longrightarrow>
        distinct (map message_id (insert_many later
           (snd (insert_rec ok r2 (insert_many between (snd (insert_rec True r1 rows))))))))"
proof -
  let ?m = "message_id r1"
  let ?s1 = "snd (insert_rec True r1 rows)"
  let ?s2 = "insert_many between ?s1"
  let ?s3 = "snd (insert_rec ok r2 ?s2)"
  have s1: "insert_rec True r1 rows = (True, rows @ [r1])"
    using new fresh by (rule insert_fresh)
  have f1: "filter (\<lambda>x. message_id x = ?m) ?s1 = [r1]"
    using new by (simp add: s1 filter_absent)
  have f2: "filter (\<lambda>x. message_id x = ?m) ?s2 = [r1]"
    using f1 by (rule insert_many_keeps_single)
  have noop: "?s3 = ?s2"
    using f2 same insert_present_noop [of r2 ?s2 r1 ok] by simp
  have f4: "filter (\<lambda>x. message_id x = ?m) (insert_many later ?s3) = [r1]"
    using f2 noop by (simp add: insert_many_keeps_single)
  have d: "distinct (map message_id rows) \<longrightarrow> distinct (map message_id (insert_many later ?s3))"
    by (simp add: insert_many_distinct insert_distinct)
  have ok1: "fst (insert_rec True r1 rows)" by (simp add: s1)
  have ok2: "fst (insert_rec True r2 ?s2)" by (simp add: insert_rec_def)
  from ok1 ok2 noop f4 d show ?thesis by (intro conjI)
qed

theorem insert_idempotent_witness:
  "filter (\<lambda>x. message_id x = ''m1'')
     (insert_many [(True, example_record ''u4'' ''s2'' ''m4'' 7 7 None ''2025-01-06T00:00:03.000Z'')]
       (snd (insert_rec True
              (example_record ''u2'' ''s1'' ''m1'' 9 9 None ''2025-01-06T00:00:02.000Z'')
              (insert_many
                 [(True, example_record ''u3'' ''s1'' ''m3'' 5 5 None ''2025-01-06T00:00:01.000Z'')]
                 (snd (insert_rec True
                        (example_record ''u1'' ''s1'' ''m1'' 1000 500 (Some (1 / 100))
                           ''2025-01-06T00:00:00.000Z'') []))))))
   = [example_record ''u1'' ''s1'' ''m1'' 1000 500 (Some (1 / 100)) ''2025-01-06T00:00:00.000Z'']
   \<and> fst (insert_rec True
              (example_record ''u2'' ''s1'' ''m1'' 9 9 None ''2025-01-06T00:00:02.000Z'')
              (insert_many
                 [(True, example_record ''u3'' ''s1'' ''m3'' 5 5 None ''2025-01-06T00:00:01.000Z'')]
                 (snd (insert_rec True
                        (example_record ''u1'' ''s1'' ''m1'' 1000 500 (Some (1 / 100))
                           ''2025-01-06T00:00:00.000Z'') []))))"
proof -
  have same: "message_id (example_record ''u2'' ''s1'' ''m1'' 9 9 None ''2025-01-06T00:00:02.000Z'')
     = message_id (example_record ''u1'' ''s1'' ''m1'' 1000 500 (Some (1 / 100))
         ''2025-01-06T00:00:00.000Z'')"
    by (simp add: example_record_def)
  have new: "\<not> hasMessage (message_id (example_record ''u1'' ''s1'' ''m1'' 1000 500 (Some (1 / 100))
         ''2025-01-06T00:00:00.000Z'')) []"
    by (simp add: hasMessage_def)
  have fresh: "id_str (example_record ''u1'' ''s1'' ''m1'' 1000 500 (Some (1 / 100))
         ''2025-01-06T00:00:00.000Z'') \<notin> set (map id_str [])"
    by simp
  have m: "message_id (example_record ''u1'' ''s1'' ''m1'' 1000 500 (Some (1 / 100))
         ''2025-01-06T00:00:00.000Z'') = ''m1''"
    by (simp add: example_record_def)
  show ?thesis
    using insert_idempotent [OF same new fresh,
      of "[(True, example_record ''u3'' ''s1'' ''m3'' 5 5 None ''2025-01-06T00:00:01.000Z'')]"
         True
         "[(True, example_record ''u4'' ''s2'' ''m4'' 7 7 None ''2025-01-06T00:00:03.000Z'')]"]
    unfolding m by (elim conjE, intro conjI) assumption+
qed

subsection \<open>The range query\<close>

lemma is_substring_iff: "is_substring f s \<longleftrightarrow> (\<exists>pre post. s = pre @ f @ post)"
proof (induction s)
  case Nil
  show ?case by auto
next
  case (Cons c cs)
  have "take (length f) (c # cs) = f \<longleftrightarrow> (\<exists>post. c # cs = f @ post)"
    by (metis append_eq_conv_conj append_take_drop_id)
  moreover have "(\<exists>pre post. c # cs = pre @ f @ post)
      \<longleftrightarrow> (\<exists>post. c # cs = f @ post) \<or> (\<exists>pre post. cs = pre @ f @ post)"
    by (auto simp add: Cons_eq_append_conv)
  ultimately show ?case by (simp add: Cons.IH)
qed

lemma like_any: "like_match ''%'' s"
  by (induction s) simp_all

lemma like_percent:
  "like_match (CHR ''%'' # ps) s \<longleftrightarrow> (\<exists>pre rest. s = pre @ rest \<and> like_match ps rest)"
proof (induction s)
  case Nil
  show ?case by simp
next
  case (Cons c cs)
  have "(\<exists>pre rest. c # cs = pre @ rest \<and> like_match ps rest)
      \<longleftrightarrow> like_match ps (c # cs) \<or> (\<exists>pre rest. cs = pre @ rest \<and> like_match ps rest)"
    by (auto simp add: Cons_eq_append_conv) 
  then show ?case by (simp add: Cons.IH)
qed

lemma like_literal:
  assumes "\<forall>c\<in>set f. c \<noteq> CHR ''%'' \<and> c \<noteq> CHR ''_''"
  shows "like_match (f @ ps) s \<longleftrightarrow>
     (\<exists>mid rest. s = mid @ rest \<and> map ascii_lower mid = map ascii_lower f \<and> like_match ps rest)"
  using assms
proof (induction f arbitrary: s)
  case Nil
  show ?case by simp
next
  case (Cons a f)
  show ?case
  proof (cases s)
    case Nil
    with Cons.prems show ?thesis by simp
  next
    case (Cons c cs)
    have "(\<exists>mid rest. c # cs = mid @ rest \<and> map ascii_lower mid = map ascii_lower (a # f)
             \<and> like_match ps rest)
        \<longleftrightarrow> ascii_lower a = ascii_lower c \<and>
            (\<exists>mid rest. cs = mid @ rest \<and> map ascii_lower mid = map ascii_lower f
               \<and> like_match ps rest)" (is "?L \<longleftrightarrow> ?R")
    proof
      assume ?L
      then obtain mid rest where 1: "c # cs = mid @ rest"
        and 2: "map ascii_lower mid = map ascii_lower (a # f)" and 3: "like_match ps rest"
        by blast
      from 2 obtain z zs where "mid = z # zs" "ascii_lower z = ascii_lower a"
        "map ascii_lower zs = map ascii_lower f"
        by (auto simp add: map_eq_Cons_conv)
      with 1 3 show ?R by auto
    next
      assume ?R
      then obtain mid rest where "ascii_lower a = ascii_lower c" "cs = mid @ rest"
        "map ascii_lower mid = map ascii_lower f" "like_match ps rest"
        by blast
      then have "c # cs = (c # mid) @ rest \<and> map ascii_lower (c # mid) = map ascii_lower (a # f)
          \<and> like_match ps rest"
        by simp
      then show ?L by blast
    qed
    with Cons.prems Cons.IH [of cs] Cons show ?thesis by simp
  qed
qed

lemma like_contains:
  assumes "\<forall>c\<in>set f. c \<noteq> CHR ''%'' \<and> c \<noteq> CHR ''_''"
  shows "like_match (''%'' @ f @ ''%'') s \<longleftrightarrow>
     (\<exists>pre mid post. s = pre @ mid @ post \<and> map ascii_lower mid = map ascii_lower f)"
proof -
  have "like_match (''%'' @ f @ ''%'') s \<longleftrightarrow>
      (\<exists>pre rest. s = pre @ rest \<and>
         (\<exists>mid post. rest = mid @ post \<and> map ascii_lower mid = map ascii_lower f))"
    using assms by (simp add: like_percent like_literal like_any)
  also have "\<dots> \<longleftrightarrow>
      (\<exists>pre mid post. s = pre @ mid @ post \<and> map ascii_lower mid = map ascii_lower f)"
    by blast
  finally show ?thesis .
qed

text \<open>
  C6 as stated fails: the filter \<^verbatim>\<open>SONNET\<close> is not a case-sensitive substring of the model
  \<^verbatim>\<open>anthropic/claude-sonnet-4-5\<close>, so the query of the specification returns nothing, but
  the \<^verbatim>\<open>LIKE\<close> of the code matches and the row is returned.
\<close>

theorem range_query_case_counterexample:
  "getAggregateStats ''laptop'' ''1970-01-01T00:00:00.000Z'' ''2100-01-01T00:00:00.000Z''
      (Some ''SONNET'')
      [example_record ''u1'' ''s1'' ''m1'' 1000 500 None ''2025-01-06T00:00:00.000Z'']
    = ([example_record ''u1'' ''s1'' ''m1'' 1000 500 None ''2025-01-06T00:00:00.000Z''], 1)
   \<and> spec_queryByRange ''laptop'' ''1970-01-01T00:00:00.000Z'' ''2100-01-01T00:00:00.000Z''
      (Some ''SONNET'')
      [example_record ''u1'' ''s1'' ''m1'' 1000 500 None ''2025-01-06T00:00:00.000Z'']
    = ([], 0)"
  by (simp add: getAggregateStats_def spec_queryByRange_def range_where_def example_record_def
      Let_def ascii_lower_def less_eq_char_def less_char_def)

text \<open>
  C6, as the code has it. The range query returns exactly the stored rows of the given
  machine whose \<^verbatim>\<open>created_at\<close> lies in the half-open interval and, when a non-empty filter
  is given, whose model matches the \<^verbatim>\<open>LIKE\<close> pattern made of the filter between two
  \<^verbatim>\<open>%\<close>; the rows come in ascending order of \<^verbatim>\<open>created_at\<close>, with the number of distinct
  session ids among them. For a filter with no \<^verbatim>\<open>%\<close> and no \<^verbatim>\<open>_\<close> the pattern matches
  exactly the models that contain the filter as a substring up to the case of ASCII letters.
  The filter \<^verbatim>\<open>sonnet\<close> matches \<^verbatim>\<open>anthropic/claude-sonnet-4-5\<close> and not \<^verbatim>\<open>openai/gpt-5\<close>.
\<close>

theorem range_query_semantics:
  "mset (fst (getAggregateStats machine startDate endDate modelFilter rows))
     = filter_mset
         (\<lambda>x. machine_id x = machine \<and> startDate \<le> created_at x \<and> created_at x < endDate \<and>
              (\<forall>f. modelFilter = Some f \<and> f \<noteq> [] \<longrightarrow> like_match (''%'' @ f @ ''%'') (model x)))
         (mset rows)
   \<and> sorted (map created_at (fst (getAggregateStats machine startDate endDate modelFilter rows)))
   \<and> snd (getAggregateStats machine startDate endDate modelFilter rows)
     = card (session_id ` set (fst (getAggregateStats machine startDate endDate modelFilter rows)))
   \<and> ((\<forall>c\<in>set f. c \<noteq> CHR ''%'' \<and> c \<noteq> CHR ''_'') \<longrightarrow>
        like_match (''%'' @ f @ ''%'') m
          = (\<exists>pre mid post. m = pre @ mid @ post \<and> map ascii_lower mid = map ascii_lower f))
   \<and> like_match (''%'' @ ''sonnet'' @ ''%'') ''anthropic/claude-sonnet-4-5''
   \<and> \<not> like_match (''%'' @ ''sonnet'' @ ''%'') ''openai/gpt-5''"
proof -
  have pred: "range_where machine startDate endDate modelFilter
      = (\<lambda>x. machine_id x = machine \<and> startDate \<le> created_at x \<and> created_at x < endDate \<and>
              (\<forall>f. modelFilter = Some f \<and> f \<noteq> [] \<longrightarrow> like_match (''%'' @ f @ ''%'') (model x)))"
    by (rule ext) (auto simp add: range_where_def split: option.splits)
  have rows: "mset (fst (getAggregateStats machine startDate endDate modelFilter rows))
     = filter_mset (range_where machine startDate endDate modelFilter) (mset rows)"
    by (simp add: getAggregateStats_def Let_def)
  have ordered:
    "sorted (map created_at (fst (getAggregateStats machine startDate endDate modelFilter rows)))"
    by (simp add: getAggregateStats_def Let_def)
  have count: "snd (getAggregateStats machine startDate endDate modelFilter rows)
     = card (session_id ` set (fst (getAggregateStats machine startDate endDate modelFilter rows)))"
    by (simp add: getAggregateStats_def Let_def length_remdups_card_conv)
  have fold: "(\<forall>c\<in>set f. c \<noteq> CHR ''%'' \<and> c \<noteq> CHR ''_'') \<longrightarrow>
        like_match (''%'' @ f @ ''%'') m
          = (\<exists>pre mid post. m = pre @ mid @ post \<and> map ascii_lower mid = map ascii_lower f)"
    using like_contains [of f m] by blast
  have yes: "like_match (''%'' @ ''sonnet'' @ ''%'') ''anthropic/claude-sonnet-4-5''"
    by (simp add: ascii_lower_def less_eq_char_def)
  have no: "\<not> like_match (''%'' @ ''sonnet'' @ ''%'') ''openai/gpt-5''"
    by (simp add: ascii_lower_def less_eq_char_def)
  from rows [unfolded pred] ordered count fold yes no show ?thesis
    by (intro conjI)
qed

theorem range_query_semantics_witness:
  "mset (fst (getAggregateStats ''laptop'' ''2025-01-06T00:00:00.000Z''
            ''2100-01-01T00:00:00.000Z'' (Some ''sonnet'')
            [example_record ''u1'' ''s1'' ''m1'' 1000 500 None ''2025-01-06T00:00:00.000Z'',
             (example_record ''u2'' ''s2'' ''m2'' 7 7 None ''2025-01-06T00:00:01.000Z'')
               \<lparr>model := ''openai/gpt-5''\<rparr>,
             example_record ''u3'' ''s3'' ''m3'' 9 9 None ''2025-01-05T23:59:59.999Z'']))
     = {#example_record ''u1'' ''s1'' ''m1'' 1000 500 None ''2025-01-06T00:00:00.000Z''#}
   \<and> (\<exists>pre mid post. ''anthropic/claude-sonnet-4-5'' = pre @ mid @ post \<and>
         map ascii_lower mid = map ascii_lower ''sonnet'')"
proof -
  have plain: "\<forall>c\<in>set ''sonnet''. c \<noteq> CHR ''%'' \<and> c \<noteq> CHR ''_''"
    by simp
  note inst = range_query_semantics [of "''laptop''" "''2025-01-06T00:00:00.000Z''"
      "''2100-01-01T00:00:00.000Z''" "Some ''sonnet''"
      "[example_record ''u1'' ''s1'' ''m1'' 1000 500 None ''2025-01-06T00:00:00.000Z'',
        (example_record ''u2'' ''s2'' ''m2'' 7 7 None ''2025-01-06T00:00:01.000Z'')
          \<lparr>model := ''openai/gpt-5''\<rparr>,
        example_record ''u3'' ''s3'' ''m3'' 9 9 None ''2025-01-05T23:59:59.999Z'']"
      "''sonnet''" "''anthropic/claude-sonnet-4-5''"]
  have a: "mset (fst (getAggregateStats ''laptop'' ''2025-01-06T00:00:00.000Z''
            ''2100-01-01T00:00:00.000Z'' (Some ''sonnet'')
            [example_record ''u1'' ''s1'' ''m1'' 1000 500 None ''2025-01-06T00:00:00.000Z'',
             (example_record ''u2'' ''s2'' ''m2'' 7 7 None ''2025-01-06T00:00:01.000Z'')
               \<lparr>model := ''openai/gpt-5''\<rparr>,
             example_record ''u3'' ''s3'' ''m3'' 9 9 None ''2025-01-05T23:59:59.999Z'']))
     = {#example_record ''u1'' ''s1'' ''m1'' 1000 500 None ''2025-01-06T00:00:00.000Z''#}"
    unfolding inst [THEN conjunct1]
    by (simp add: example_record_def ascii_lower_def less_eq_char_def less_char_def)
  from inst plain have b: "\<exists>pre mid post. ''anthropic/claude-sonnet-4-5'' = pre @ mid @ post \<and>
         map ascii_lower mid = map ascii_lower ''sonnet''"
    by blast
  from a b show ?thesis by (intro conjI)
qed

subsection \<open>The event handler\<close>

lemma event_ignored:
  "role message \<noteq> ''assistant'' \<or> \<not> truthy_num (time_completed message) \<or>
   msg_tokens message = None \<or> msg_id message \<in> processedMessages st \<Longrightarrow>
   event config env (MessageUpdated message) st = st"
  by (simp add: event_def)

lemma event_known:
  "role message = ''assistant'' \<Longrightarrow> truthy_num (time_completed message) \<Longrightarrow>
   msg_tokens message \<noteq> None \<Longrightarrow> msg_id message \<notin> processedMessages st \<Longrightarrow>
   hasMessage (msg_id message) (db st) \<Longrightarrow>
   event config env (MessageUpdated message) st =
     st\<lparr>processedMessages := insert (msg_id message) (processedMessages st)\<rparr>"
  by (auto simp add: event_def)

lemma event_failed:
  "accepted message st \<Longrightarrow> \<not> storage_ok env \<Longrightarrow>
   event config env (MessageUpdated message) st = st\<lparr>shown := shown st @ [save_failed]\<rparr>"
  by (auto simp add: event_def accepted_def insert_rec_def Let_def)

lemma event_stored:
  "accepted message st \<Longrightarrow> storage_ok env \<Longrightarrow>
   event config env (MessageUpdated message) st = ingested config env message st"
  by (cases "sessionStats st (sessionID message)")
     (auto simp add: event_def accepted_def insert_rec_def Let_def ingested_def
        getOrCreateSessionStats_def)

lemma toast_phase_frame:
  "db (toast_phase config env t c tot st) = db st
   \<and> sessionStats (toast_phase config env t c tot st) = sessionStats st
   \<and> processedMessages (toast_phase config env t c tot st) = processedMessages st"
  by (cases c) (simp_all add: toast_phase_def Let_def resetToastTracking_def)

lemma ingested_frame:
  "db (ingested config env message st) = insert_or_ignore (make_record config env message) (db st)"
  by (simp add: ingested_def Let_def toast_phase_frame)

text \<open>
  C8. The provider of a model string with no separator. For the flat model \<^verbatim>\<open>gpt-5\<close> the
  derived provider, and the provider field of the record made for a message with that model,
  is the whole model string \<^verbatim>\<open>gpt-5\<close>: \<^verbatim>\<open>split\<close> never returns an empty array, so the
  fallback \<^verbatim>\<open>?? "unknown"\<close> is never taken.
\<close>

theorem provider_of_bare_model:
  "derive_provider ''gpt-5'' = ''gpt-5''
   \<and> model (make_record config env (message\<lparr>msg_model := ModelString ''gpt-5''\<rparr>)) = ''gpt-5''
   \<and> provider (make_record config env (message\<lparr>msg_model := ModelString ''gpt-5''\<rparr>)) = ''gpt-5''"
  by (simp add: derive_provider_def at0_def nullish_def make_record_def Let_def extract_model_def)

text \<open>The same on the whole path: the row that the event handler stores for such a message.\<close>

lemma bare_model_row_stored:
  "derive_provider ''gpt-5'' = ''gpt-5''
   \<and> map provider (db (event (example_config False Messages) (example_env ''u1'' True)
        (MessageUpdated (example_message ''s1'' ''m1'' (ModelString ''gpt-5''))) (init_state [] 0)))
     = [''gpt-5'']"
proof -
  have a: "accepted (example_message ''s1'' ''m1'' (ModelString ''gpt-5'')) (init_state [] 0)"
    by (simp add: accepted_def example_message_def init_state_def truthy_num_def hasMessage_def)
  have b: "storage_ok (example_env ''u1'' True)"
    by (simp add: example_env_def)
  have c: "derive_provider ''gpt-5'' = ''gpt-5''"
    by (simp add: derive_provider_def at0_def nullish_def)
  show ?thesis
    by (simp add: event_stored [OF a b] ingested_frame c)
       (simp add: init_state_def insert_or_ignore_def make_record_def Let_def
          example_message_def extract_model_def c)
qed

lemma toast_phase_fired:
  assumes "shown (toast_phase config env t c tot st) = shown st @ [x]"
  shows "messagesSinceToast (toast_phase config env t c tot st) = 0
       \<and> costSinceToast (toast_phase config env t c tot st) = 0
       \<and> lastToastTime (toast_phase config env t c tot st) = now_reset env"
  using assms
  by (cases c) (auto simp add: toast_phase_def Let_def resetToastTracking_def split: if_splits)

lemma ingested_shown:
  "shown (ingested config env message st) = shown st @ [x] \<Longrightarrow>
   messagesSinceToast (ingested config env message st) = 0
   \<and> costSinceToast (ingested config env message st) = 0
   \<and> lastToastTime (ingested config env message st) = now_reset env"
  by (auto simp add: ingested_def Let_def toast_phase_def resetToastTracking_def
        split: option.splits if_splits)

text \<open>
  C9. A disabled toast policy never fires, whatever the three counters hold; and whenever the
  event handler shows the usage toast, the message counter and the cost counter are zero and
  the time of the last toast is the time of the reset, whichever trigger is configured.
\<close>

theorem toast_trigger:
  "(\<not> toast_enabled (toast config) \<longrightarrow> shouldShowToast config now st = False)
   \<and> (shown (event config env ev st) = shown st @ [InfoToast t c tot] \<longrightarrow>
        messagesSinceToast (event config env ev st) = 0
        \<and> costSinceToast (event config env ev st) = 0
        \<and> lastToastTime (event config env ev st) = now_reset env)"
proof (rule conjI; rule impI)
  assume "\<not> toast_enabled (toast config)"
  then show "shouldShowToast config now st = False"
    by (simp add: shouldShowToast_def)
next
  assume fired: "shown (event config env ev st) = shown st @ [InfoToast t c tot]"
  show "messagesSinceToast (event config env ev st) = 0
        \<and> costSinceToast (event config env ev st) = 0
        \<and> lastToastTime (event config env ev st) = now_reset env"
  proof (cases ev)
    case OtherEvent
    with fired show ?thesis by (simp add: event_def)
  next
    case (MessageUpdated message)
    show ?thesis
    proof (cases "accepted message st")
      case False
      then have "shown (event config env (MessageUpdated message) st) = shown st"
        by (auto simp add: event_def accepted_def)
      with fired MessageUpdated show ?thesis by simp
    next
      case True
      show ?thesis
      proof (cases "storage_ok env")
        case False
        with True fired MessageUpdated show ?thesis
          by (simp add: event_failed save_failed_def)
      next
        case ok: True
        from True ok have "event config env ev st = ingested config env message st"
          by (simp add: MessageUpdated event_stored)
        with fired show ?thesis by (simp add: ingested_shown)
      qed
    qed
  qed
qed

theorem toast_trigger_witness:
  "shouldShowToast (example_config False Messages) 0 (init_state [] 0) = False
   \<and> shown (event (example_config True Messages) (example_env ''u1'' True)
        (MessageUpdated (example_message ''s1'' ''m1'' ModelAbsent)) (init_state [] 0))
       = [InfoToast 1500 None 0]
   \<and> messagesSinceToast (event (example_config True Messages) (example_env ''u1'' True)
        (MessageUpdated (example_message ''s1'' ''m1'' ModelAbsent)) (init_state [] 0)) = 0
   \<and> costSinceToast (event (example_config True Messages) (example_env ''u1'' True)
        (MessageUpdated (example_message ''s1'' ''m1'' ModelAbsent)) (init_state [] 0)) = 0
   \<and> lastToastTime (event (example_config True Messages) (example_env ''u1'' True)
        (MessageUpdated (example_message ''s1'' ''m1'' ModelAbsent)) (init_state [] 0))
       = 1736121600002"
proof -
  have a: "accepted (example_message ''s1'' ''m1'' ModelAbsent) (init_state [] 0)"
    by (simp add: accepted_def example_message_def init_state_def truthy_num_def hasMessage_def)
  have b: "storage_ok (example_env ''u1'' True)"
    by (simp add: example_env_def)
  have c: "getPricing ''unknown'' (example_config True Messages) = None"
    by (simp add: getPricing_def example_config_def DEFAULT_PRICING_def pop_def key_matches_def
        endsWith_def template_str_def)
  have s: "shown (event (example_config True Messages) (example_env ''u1'' True)
        (MessageUpdated (example_message ''s1'' ''m1'' ModelAbsent)) (init_state [] 0))
       = [InfoToast 1500 None 0]"
    apply (simp only: event_stored [OF a b])
    apply (simp add: ingested_def Let_def make_record_def extract_model_def
        example_message_def c calculateCost_def toast_phase_def
        read_tokens_def nullish_def add_usage_def empty_stats_def init_state_def
        resetToastTracking_def)
    apply (simp add: shouldShowToast_def example_config_def example_env_def)
    done
  have d: "\<not> toast_enabled (toast (example_config False Messages))"
    by (simp add: example_config_def)
  have e: "now_reset (example_env ''u1'' True) = 1736121600002"
    by (simp add: example_env_def)
  have i: "shown (init_state [] 0) = []"
    by (simp add: init_state_def)
  from toast_trigger [of "example_config False Messages" 0 "init_state [] 0"
      "example_env ''u1'' True" OtherEvent 0 None 0] d
  have first: "shouldShowToast (example_config False Messages) 0 (init_state [] 0) = False"
    by simp
  from toast_trigger [of "example_config True Messages" 0 "init_state [] 0"
      "example_env ''u1'' True" "MessageUpdated (example_message ''s1'' ''m1'' ModelAbsent)"
      1500 None 0] s i e
  have rest: "messagesSinceToast (event (example_config True Messages) (example_env ''u1'' True)
        (MessageUpdated (example_message ''s1'' ''m1'' ModelAbsent)) (init_state [] 0)) = 0
   \<and> costSinceToast (event (example_config True Messages) (example_env ''u1'' True)
        (MessageUpdated (example_message ''s1'' ''m1'' ModelAbsent)) (init_state [] 0)) = 0
   \<and> lastToastTime (event (example_config True Messages) (example_env ''u1'' True)
        (MessageUpdated (example_message ''s1'' ''m1'' ModelAbsent)) (init_state [] 0))
       = 1736121600002"
    by simp
  from first s rest show ?thesis by simp
qed

text \<open>
  C7, as the code has it. When the insert of a new record fails, the handler shows exactly
  one error toast and returns: the session cache, the table, the set of processed messages
  and the three toast counters are as before, so the running total does not include the
  record.
\<close>

theorem write_failure_returns_early:
  assumes "accepted message st" and "\<not> storage_ok env"
  shows "shown (event config env (MessageUpdated message) st) = shown st @ [save_failed]
    \<and> sessionStats (event config env (MessageUpdated message) st) = sessionStats st
    \<and> db (event config env (MessageUpdated message) st) = db st
    \<and> processedMessages (event config env (MessageUpdated message) st) = processedMessages st
    \<and> messagesSinceToast (event config env (MessageUpdated message) st) = messagesSinceToast st
    \<and> costSinceToast (event config env (MessageUpdated message) st) = costSinceToast st
    \<and> lastToastTime (event config env (MessageUpdated message) st) = lastToastTime st"
  by (simp add: event_failed [OF assms])

theorem write_failure_returns_early_witness:
  "shown (event (example_config False Messages) (example_env ''u1'' False)
      (MessageUpdated (example_message ''s1'' ''m1'' ModelAbsent)) (init_state [] 0))
     = [save_failed]
   \<and> db (event (example_config False Messages) (example_env ''u1'' False)
      (MessageUpdated (example_message ''s1'' ''m1'' ModelAbsent)) (init_state [] 0)) = []"
proof -
  have a: "accepted (example_message ''s1'' ''m1'' ModelAbsent) (init_state [] 0)"
    by (simp add: accepted_def example_message_def init_state_def truthy_num_def hasMessage_def)
  have b: "\<not> storage_ok (example_env ''u1'' False)"
    by (simp add: example_env_def)
  from write_failure_returns_early [OF a b, of "example_config False Messages"]
  show ?thesis by (simp add: init_state_def)
qed

text \<open>
  C7 as stated fails: after a failed insert of the first message of session \<^verbatim>\<open>s1\<close> the
  error toast is shown and the cache has no entry for the session.
\<close>

theorem write_failure_cache_counterexample:
  "shown (event (example_config False Messages) (example_env ''u1'' False)
      (MessageUpdated (example_message ''s1'' ''m1'' ModelAbsent)) (init_state [] 0))
     = [save_failed]
   \<and> sessionStats (event (example_config False Messages) (example_env ''u1'' False)
      (MessageUpdated (example_message ''s1'' ''m1'' ModelAbsent)) (init_state [] 0)) ''s1''
     = None"
proof -
  have a: "accepted (example_message ''s1'' ''m1'' ModelAbsent) (init_state [] 0)"
    by (simp add: accepted_def example_message_def init_state_def truthy_num_def hasMessage_def)
  have b: "\<not> storage_ok (example_env ''u1'' False)"
    by (simp add: example_env_def)
  show ?thesis
    by (simp add: event_failed [OF a b]) (simp add: init_state_def)
qed

subsection \<open>Session totals\<close>
























subsection \<open>The query tools\<close>

text \<open>
  C10. The query tools leave the session cache as it is. The current-session query and the
  global query return the cache map unchanged; when the entry of the current session is
  missing or has message count zero and the store has rows for the session, the report is
  built from the rows of the store and nothing is written back.
\<close>

theorem queries_keep_cache:
  "sessionStats (snd (usage_execute parse_time now full sessions st)) = sessionStats st
   \<and> sessionStats (snd (globalusage_execute config hostname periods args st)) = sessionStats st
   \<and> (sessions = Some (sid # others) \<and>
       (sessionStats st sid = None \<or> (\<exists>s. sessionStats st sid = Some s \<and> messageCount s = 0)) \<and>
       getSessionStats sid (db st) \<noteq> []
       \<longrightarrow> usage_execute parse_time now full sessions st =
            (UsageReport full (buildSessionStats parse_time now (getSessionStats sid (db st))), st))"
  by (auto simp add: usage_execute_def globalusage_execute_def getCurrentSessionId_def Let_def
        split: option.splits list.splits)

theorem queries_keep_cache_witness:
  "usage_execute (\<lambda>s. 0) 5 False (Some [''s1''])
      (init_state [example_record ''u1'' ''s1'' ''m1'' 1000 500 (Some (1 / 100))
                     ''2025-01-06T00:00:00.000Z''] 0)
   = (UsageReport False
        (buildSessionStats (\<lambda>s. 0) 5
           (getSessionStats ''s1''
              (db (init_state [example_record ''u1'' ''s1'' ''m1'' 1000 500 (Some (1 / 100))
                     ''2025-01-06T00:00:00.000Z''] 0)))),
      init_state [example_record ''u1'' ''s1'' ''m1'' 1000 500 (Some (1 / 100))
                     ''2025-01-06T00:00:00.000Z''] 0)"
proof -
  have none: "sessionStats (init_state [example_record ''u1'' ''s1'' ''m1'' 1000 500 (Some (1 / 100))
                     ''2025-01-06T00:00:00.000Z''] 0) ''s1'' = None"
    by (simp add: init_state_def)
  have some: "getSessionStats ''s1''
      (db (init_state [example_record ''u1'' ''s1'' ''m1'' 1000 500 (Some (1 / 100))
                     ''2025-01-06T00:00:00.000Z''] 0)) \<noteq> []"
    by (simp add: init_state_def getSessionStats_def example_record_def)
  from queries_keep_cache [where sessions = "Some [''s1'']" and sid = "''s1''" and others = "[]"
      and st = "init_state [example_record ''u1'' ''s1'' ''m1'' 1000 500 (Some (1 / 100))
                     ''2025-01-06T00:00:00.000Z''] 0"
      and parse_time = "\<lambda>s. 0" and now = 5 and full = False] none some
  show ?thesis by simp
qed

end
